theory Spec2Isabelle
  imports Complex_Main
begin

section \<open>The quantum random number generator of rng\_quantique.py\<close>

text \<open>
  The program draws an integer from an inclusive range: it measures a register of qubits
  in uniform superposition, reads the measured bit string as a binary number, and draws
  again when the number falls outside the range.  The circuit simulator is a library the
  program calls; here it is a scripted source that hands out one prepared outcome per run
  and keeps a log of the register widths it was asked for.

  Three things are left out.  Lines 1 to 10, the imports and the creation of the image
  directory, run before the command line is read.  The interpreter's limit on the depth
  of recursion is a bound on resources: the retry of the sampler is followed as far as the
  script goes.  A signal from outside the program, such as a keyboard interrupt, is not
  among the exceptions: those are the ones the called code raises.
\<close>

subsection \<open>Python values\<close>

text \<open>
  \<^verbatim>\<open>int.bit_length()\<close>: the number of binary digits of the absolute value, 0 for 0.
\<close>

fun nat_bit_length :: "nat \<Rightarrow> nat" where
  "nat_bit_length n = (if n = 0 then 0 else Suc (nat_bit_length (n div 2)))"

declare nat_bit_length.simps [simp del]

definition bit_length :: "int \<Rightarrow> nat" where
  "bit_length x = nat_bit_length (nat \<bar>x\<bar>)"

text \<open>
  \<^verbatim>\<open>str\<close> of an integer, as an f-string formats it: decimal digits, a minus sign
  before a negative number.
\<close>

fun str_nat :: "nat \<Rightarrow> string" where
  "str_nat n =
     (if n < 10 then [''0123456789'' ! n]
      else str_nat (n div 10) @ [''0123456789'' ! (n mod 10)])"

declare str_nat.simps [simp del]

definition str_int :: "int \<Rightarrow> string" where
  "str_int i = (if i < 0 then CHR ''-'' # str_nat (nat (- i)) else str_nat (nat i))"

text \<open>
  Exceptions deriving from \<^verbatim>\<open>Exception\<close>, each with the text \<^verbatim>\<open>str(e)\<close> gives.
  \<open>LibraryError\<close> stands for whatever the circuit and plotting libraries raise.
\<close>

datatype exn = LibraryError string | ValueError string

fun str_exn :: "exn \<Rightarrow> string" where
  "str_exn (LibraryError msg) = msg"
| "str_exn (ValueError msg) = msg"

text \<open>
  What a call can come to: it returns, it raises, or the scripted simulator has no outcome
  left for a run the call asks for, and the call is followed no further (\<open>Starved\<close>).
\<close>

datatype 'a outcome = Return 'a | Raise exn | Starved

subsection \<open>The measurement\<close>

text \<open>
  One shot of a measured register is a string of the characters 0 and 1, the first
  character being the most significant bit; \<open>True\<close> is the character 1.
  \<^verbatim>\<open>int(measurement, 2)\<close> reads it as a binary number and raises
  \<^verbatim>\<open>ValueError\<close> on the empty string.
\<close>

type_synonym measurement = "bool list"

definition binary_value :: "measurement \<Rightarrow> int" where
  "binary_value bits = foldl (\<lambda>acc b. 2 * acc + (if b then 1 else 0)) 0 bits"

definition int_base2 :: "measurement \<Rightarrow> exn + int" where
  "int_base2 bits =
     (if bits = []
      then Inl (ValueError (''invalid literal for int() with base 2: '' @ [CHR 0x27, CHR 0x27]))
      else Inr (binary_value bits))"

subsection \<open>The simulator\<close>

text \<open>
  Lines 34 to 47 build a circuit of \<open>num_qubits\<close> qubits, put a Hadamard gate on each,
  measure all of them, run one shot and take its bit string.  The scripted simulator
  answers such a run with the next prepared outcome, a bit string or an exception, and
  records the width of the register.
\<close>

record simulator =
  script :: "(exn + measurement) list"
  runs :: "nat list"

definition run_circuit :: "nat \<Rightarrow> simulator \<Rightarrow> (exn + measurement) option \<times> simulator" where
  "run_circuit num_qubits sim =
     (case script sim of
        [] \<Rightarrow> (None, sim)
      | result # rest \<Rightarrow> (Some result, sim\<lparr>script := rest, runs := runs sim @ [num_qubits]\<rparr>))"

subsection \<open>The sampler\<close>

function generator_quantum_number ::
  "int \<Rightarrow> int \<Rightarrow> simulator \<Rightarrow> int outcome \<times> simulator" where
  "generator_quantum_number min_val max_val sim =
     (let range_size = max_val - min_val + 1;
          num_qubits = bit_length range_size
      in case run_circuit num_qubits sim of
           (None, sim') \<Rightarrow> (Starved, sim')
         | (Some (Inl e), sim') \<Rightarrow> (Raise e, sim')
         | (Some (Inr measurement), sim') \<Rightarrow>
             (case int_base2 measurement of
                Inl e \<Rightarrow> (Raise e, sim')
              | Inr decimal_number \<Rightarrow>
                  if decimal_number \<ge> range_size
                  then generator_quantum_number min_val max_val sim'
                  else (Return (min_val + decimal_number), sim')))"
  by pat_completeness auto
termination
  by (relation "measure (\<lambda>(min_val, max_val, sim). length (script sim))")
    (auto simp: run_circuit_def split: list.splits)

declare generator_quantum_number.simps [simp del]

subsection \<open>The process and its surroundings\<close>

text \<open>
  What the program touches besides the simulator: the lines it prints, the image files it
  writes, and the two library calls that write them.  \<open>drawer\<close> is what building and
  drawing a circuit of the given number of qubits comes to (lines 23 and 24), \<open>plotter\<close>
  what plotting and saving the histogram of a dataset with the given number of bins comes
  to (lines 65 to 76): \<open>None\<close> when the file is written, an exception otherwise.
\<close>

record world =
  aer :: simulator
  stdout :: "string list"
  images :: "string list"
  drawer :: "int \<Rightarrow> exn option"
  plotter :: "int list \<Rightarrow> int \<Rightarrow> exn option"

definition print :: "string \<Rightarrow> world \<Rightarrow> world" where
  "print line w = w\<lparr>stdout := stdout w @ [line]\<rparr>"

definition IMG_DIR :: string where
  "IMG_DIR = ''images''"

text \<open>\<^verbatim>\<open>os.path.join\<close> of a directory and a file name, with the separator of POSIX.\<close>

definition path_join :: "string \<Rightarrow> string \<Rightarrow> string" where
  "path_join dir name = dir @ ''/'' @ name"

definition draw_and_save :: "int \<Rightarrow> world \<Rightarrow> (exn + unit) \<times> world" where
  "draw_and_save nb_qubits w =
     (let file_name = path_join IMG_DIR
            (''quantum_circuit_'' @ str_int nb_qubits @ ''_qubits.png'');
          w1 = print (''Loading quantum circuit image for '' @ str_int nb_qubits @ ''...'') w
      in case drawer w1 nb_qubits of
           Some e \<Rightarrow> (Inl e, w1)
         | None \<Rightarrow>
             (Inr (), print (''Quantum circuit image saved as '' @ file_name @ ''.'')
                        (w1\<lparr>images := images w1 @ [file_name]\<rparr>)))"

text \<open>The loop of \<open>benchmark\<close>, lines 61 to 63: \<open>n\<close> iterations are still to run.\<close>

fun benchmark_loop ::
  "nat \<Rightarrow> int \<Rightarrow> int \<Rightarrow> int list \<Rightarrow> simulator \<Rightarrow> int list outcome \<times> simulator" where
  "benchmark_loop 0 min_val max_val dataset sim = (Return dataset, sim)"
| "benchmark_loop (Suc n) min_val max_val dataset sim =
     (case generator_quantum_number min_val max_val sim of
        (Return random_number, sim') \<Rightarrow>
          benchmark_loop n min_val max_val (dataset @ [random_number]) sim'
      | (Raise e, sim') \<Rightarrow> (Raise e, sim')
      | (Starved, sim') \<Rightarrow> (Starved, sim'))"

definition benchmark :: "int \<Rightarrow> int \<Rightarrow> int \<Rightarrow> world \<Rightarrow> unit outcome \<times> world" where
  "benchmark min_val max_val iterations w =
     (let w1 = print (''Benchmarking quantum random number generator for '' @ str_int iterations
                 @ '' iterations between '' @ str_int min_val @ '' and '' @ str_int max_val
                 @ ''...'') w
      in case benchmark_loop (nat iterations) min_val max_val [] (aer w1) of
           (Raise e, sim') \<Rightarrow> (Raise e, w1\<lparr>aer := sim'\<rparr>)
         | (Starved, sim') \<Rightarrow> (Starved, w1\<lparr>aer := sim'\<rparr>)
         | (Return dataset, sim') \<Rightarrow>
             (let w2 = w1\<lparr>aer := sim'\<rparr>;
                  nb_bins = max_val - min_val + 1;
                  name_image = path_join IMG_DIR
                    (''benchmark_quantum_'' @ str_int iterations @ ''.png'')
              in case plotter w2 dataset nb_bins of
                   Some e \<Rightarrow> (Raise e, w2)
                 | None \<Rightarrow>
                     (Return (), print (''Benchmark histogram saved as '' @ name_image @ ''.'')
                                   (w2\<lparr>images := images w2 @ [name_image]\<rparr>))))"

subsection \<open>The command line\<close>

text \<open>
  The parsed arguments, and how the process ends: with an exit status, with an uncaught
  exception (the interpreter prints the traceback and the status is 1), or not within the
  simulator's script.
\<close>

record args =
  args_min :: int
  args_max :: int
  args_image :: bool
  args_qubits :: int
  args_benchmark :: bool
  args_iterations :: int

definition default_args :: args where
  "default_args = \<lparr>args_min = 0, args_max = 100, args_image = False, args_qubits = 4,
     args_benchmark = False, args_iterations = 1000\<rparr>"

datatype ending = Exit int | Traceback exn | Unfinished

fun exit_status :: "ending \<Rightarrow> int option" where
  "exit_status (Exit n) = Some n"
| "exit_status (Traceback e) = Some 1"
| "exit_status Unfinished = None"

text \<open>
  Lines 93 to 110, after \<^verbatim>\<open>parse_args\<close>.  \<^verbatim>\<open>exit(1)\<close> ends the process at once;
  an exception of \<open>draw_and_save\<close> or \<open>benchmark\<close> is caught nowhere; the single
  generation sits in \<^verbatim>\<open>try ... except Exception\<close>, after which the script ends.
\<close>

definition main :: "args \<Rightarrow> world \<Rightarrow> ending \<times> world" where
  "main args w =
     (let w1 = print ''Starting quantum random number generation...'' w
      in if args_min args \<ge> args_max args
         then (Exit 1, print ''Error: Minimum value must be less than maximum value.'' w1)
         else
           (case (if args_image args then draw_and_save (args_qubits args) w1
                  else (Inr (), w1)) of
              (Inl e, w2) \<Rightarrow> (Traceback e, w2)
            | (Inr _, w2) \<Rightarrow>
                if args_benchmark args
                then
                  (case benchmark (args_min args) (args_max args) (args_iterations args) w2 of
                     (Raise e, w3) \<Rightarrow> (Traceback e, w3)
                   | (Starved, w3) \<Rightarrow> (Unfinished, w3)
                   | (Return _, w3) \<Rightarrow> (Exit 0, w3))
                else
                  (let w3 = print (''Generating a random number between ''
                              @ str_int (args_min args) @ '' and '' @ str_int (args_max args)
                              @ ''...'') w2
                   in case generator_quantum_number (args_min args) (args_max args) (aer w3) of
                        (Return random_number, sim') \<Rightarrow>
                          (Exit 0, print (''Generated random number: '' @ str_int random_number)
                                     (w3\<lparr>aer := sim'\<rparr>))
                      | (Raise e, sim') \<Rightarrow>
                          (Exit 0, print (''An error occurred during random number generation: ''
                                            @ str_exn e)
                                     (w3\<lparr>aer := sim'\<rparr>))
                      | (Starved, sim') \<Rightarrow> (Unfinished, w3\<lparr>aer := sim'\<rparr>))))"

subsection \<open>The lines a run prints\<close>

text \<open>
  The two generation paths are told apart by what they print first: \<open>benchmark\<close> a line
  that begins with Benchmarking, the single generation a line that begins with Generating.
  \<open>printed w w'\<close> are the lines added between two states of the world, and
  \<open>announced p lines\<close> holds when one of the lines begins with \<open>p\<close>.
\<close>

definition printed :: "world \<Rightarrow> world \<Rightarrow> string list" where
  "printed w w' = drop (length (stdout w)) (stdout w')"

definition announced :: "string \<Rightarrow> string list \<Rightarrow> bool" where
  "announced p lines \<longleftrightarrow> (\<exists>l \<in> set lines. take (length p) l = p)"

subsection \<open>A world to start in\<close>

text \<open>
  The world of a fresh process, for running the program on examples: nothing printed, no
  image written, a simulator with the given script.  Its drawer and its plotter are
  examples too, not the libraries: the drawer refuses a register of negative size, which
  the circuit library refuses as well, and draws every other circuit; the plotter plots
  every dataset.
\<close>

definition library_drawer :: "int \<Rightarrow> exn option" where
  "library_drawer nb_qubits =
     (if nb_qubits < 0 then Some (LibraryError ''Register size must be non-negative'')
      else None)"

definition library_plotter :: "int list \<Rightarrow> int \<Rightarrow> exn option" where
  "library_plotter dataset nb_bins = None"

definition start_world :: "(exn + measurement) list \<Rightarrow> world" where
  "start_world outcomes =
     \<lparr>aer = \<lparr>script = outcomes, runs = []\<rparr>, stdout = [], images = [],
      drawer = library_drawer, plotter = library_plotter\<rparr>"

section \<open>Properties\<close>

subsection \<open>The bit length\<close>

text \<open>
  The characterisation Python documents: for \<open>x\<close> other than 0, \<open>bit_length x\<close> is the
  \<open>k\<close> with \<open>2 ^ (k - 1) \<le> \<bar>x\<bar> < 2 ^ k\<close>.
\<close>

lemma nat_bit_length_0: "nat_bit_length 0 = 0"
  by (simp add: nat_bit_length.simps)

lemma nat_bit_length_pos: "0 < n \<Longrightarrow> nat_bit_length n = Suc (nat_bit_length (n div 2))"
  by (subst nat_bit_length.simps) simp

lemma nat_bit_length_upper: "n < 2 ^ nat_bit_length n"
proof (induction n rule: nat_bit_length.induct)
  case (1 n)
  show ?case
  proof (cases "n = 0")
    case True
    then show ?thesis by (simp add: nat_bit_length_0)
  next
    case False
    with 1 have "n div 2 < 2 ^ nat_bit_length (n div 2)" by simp
    then have "n < 2 * 2 ^ nat_bit_length (n div 2)" by linarith
    with False show ?thesis by (simp add: nat_bit_length_pos)
  qed
qed

lemma nat_bit_length_lower: "0 < n \<Longrightarrow> 2 ^ (nat_bit_length n - 1) \<le> n"
proof (induction n rule: nat_bit_length.induct)
  case (1 n)
  show ?case
  proof (cases "n div 2 = 0")
    case True
    with 1 have "n = 1" by linarith
    then show ?thesis by (simp add: nat_bit_length_pos nat_bit_length_0)
  next
    case False
    with 1 have ih: "2 ^ (nat_bit_length (n div 2) - 1) \<le> n div 2" by simp
    from False have "nat_bit_length (n div 2) = Suc (nat_bit_length (n div 2) - 1)"
      by (simp add: nat_bit_length_pos)
    then have "(2::nat) ^ nat_bit_length (n div 2) = 2 * 2 ^ (nat_bit_length (n div 2) - 1)"
      by (metis power_Suc)
    with ih have "(2::nat) ^ nat_bit_length (n div 2) \<le> n" by linarith
    with 1 show ?thesis by (simp add: nat_bit_length_pos)
  qed
qed

lemma nat_bit_length_least: "n < 2 ^ j \<Longrightarrow> nat_bit_length n \<le> j"
proof (rule ccontr)
  assume lt: "n < 2 ^ j" and "\<not> nat_bit_length n \<le> j"
  then have j: "j \<le> nat_bit_length n - 1" by simp
  then have "0 < n" using \<open>\<not> nat_bit_length n \<le> j\<close> by (cases "n = 0") (simp_all add: nat_bit_length_0)
  then have "2 ^ (nat_bit_length n - 1) \<le> n" by (rule nat_bit_length_lower)
  moreover have "(2::nat) ^ j \<le> 2 ^ (nat_bit_length n - 1)" using j by (simp add: power_increasing)
  ultimately show False using lt by linarith
qed

lemma bit_length_bounds:
  "0 < x \<Longrightarrow> 2 ^ (bit_length x - 1) \<le> x \<and> x < 2 ^ bit_length x"
proof -
  assume x: "0 < x"
  then have n: "0 < nat \<bar>x\<bar>" and eq: "x = int (nat \<bar>x\<bar>)" by simp_all
  have "int (2 ^ (nat_bit_length (nat \<bar>x\<bar>) - 1)) \<le> int (nat \<bar>x\<bar>)"
    using nat_bit_length_lower [OF n] by (simp only: of_nat_le_iff)
  moreover have "int (nat \<bar>x\<bar>) < int (2 ^ nat_bit_length (nat \<bar>x\<bar>))"
    using nat_bit_length_upper [of "nat \<bar>x\<bar>"] by (simp only: of_nat_less_iff)
  ultimately show ?thesis using eq by (simp add: bit_length_def)
qed

lemma bit_length_least: "0 \<le> x \<Longrightarrow> x < 2 ^ j \<Longrightarrow> bit_length x \<le> j"
proof -
  assume "0 \<le> x" "x < 2 ^ j"
  then have "int (nat \<bar>x\<bar>) < int (2 ^ j)" by simp
  then have "nat \<bar>x\<bar> < 2 ^ j" by (simp only: of_nat_less_iff)
  then show ?thesis by (simp add: bit_length_def nat_bit_length_least)
qed

subsection \<open>One draw of the sampler\<close>

text \<open>
  What the sampler does with the next outcome of the simulator: none left, an exception,
  a bit string it cannot read, a number out of the range, a number in the range.
\<close>

lemma generator_starved:
  "script sim = [] \<Longrightarrow> generator_quantum_number min_val max_val sim = (Starved, sim)"
  by (subst generator_quantum_number.simps) (simp add: run_circuit_def)

lemma generator_raise:
  "script sim = Inl e # rest \<Longrightarrow>
   generator_quantum_number min_val max_val sim =
     (Raise e, sim\<lparr>script := rest, runs := runs sim @ [bit_length (max_val - min_val + 1)]\<rparr>)"
  by (subst generator_quantum_number.simps) (simp add: run_circuit_def)

lemma generator_reject:
  "script sim = Inr m # rest \<Longrightarrow> int_base2 m = Inr v \<Longrightarrow> max_val - min_val + 1 \<le> v \<Longrightarrow>
   generator_quantum_number min_val max_val sim =
     generator_quantum_number min_val max_val
       (sim\<lparr>script := rest, runs := runs sim @ [bit_length (max_val - min_val + 1)]\<rparr>)"
  by (subst generator_quantum_number.simps) (simp add: run_circuit_def)

lemma generator_accept:
  "script sim = Inr m # rest \<Longrightarrow> int_base2 m = Inr v \<Longrightarrow> v < max_val - min_val + 1 \<Longrightarrow>
   generator_quantum_number min_val max_val sim =
     (Return (min_val + v),
      sim\<lparr>script := rest, runs := runs sim @ [bit_length (max_val - min_val + 1)]\<rparr>)"
  by (subst generator_quantum_number.simps) (simp add: run_circuit_def)

lemma generator_unreadable:
  "script sim = Inr m # rest \<Longrightarrow> int_base2 m = Inl e \<Longrightarrow>
   generator_quantum_number min_val max_val sim =
     (Raise e, sim\<lparr>script := rest, runs := runs sim @ [bit_length (max_val - min_val + 1)]\<rparr>)"
  by (subst generator_quantum_number.simps) (simp add: run_circuit_def)

lemma generator_rejections:
  assumes "\<forall>m \<in> set rejected. \<exists>v. int_base2 m = Inr v \<and> max_val - min_val + 1 \<le> v"
  shows "generator_quantum_number min_val max_val \<lparr>script = map Inr rejected @ rest, runs = prior\<rparr> =
         generator_quantum_number min_val max_val
           \<lparr>script = rest,
            runs = prior @ replicate (length rejected) (bit_length (max_val - min_val + 1))\<rparr>"
  using assms
proof (induction rejected arbitrary: prior)
  case Nil
  then show ?case by simp
next
  case (Cons m ms)
  then obtain v where v: "int_base2 m = Inr v" "max_val - min_val + 1 \<le> v" by auto
  have "generator_quantum_number min_val max_val \<lparr>script = map Inr (m # ms) @ rest, runs = prior\<rparr> =
        generator_quantum_number min_val max_val
          \<lparr>script = map Inr ms @ rest, runs = prior @ [bit_length (max_val - min_val + 1)]\<rparr>"
    using generator_reject [where sim = "\<lparr>script = map Inr (m # ms) @ rest, runs = prior\<rparr>", OF _ v]
    by simp
  also have "\<dots> = generator_quantum_number min_val max_val
          \<lparr>script = rest, runs = (prior @ [bit_length (max_val - min_val + 1)]) @
             replicate (length ms) (bit_length (max_val - min_val + 1))\<rparr>"
    using Cons by simp
  finally show ?case by (simp add: replicate_append_same)
qed


lemma binary_value_nonneg: "0 \<le> binary_value bits"
proof -
  have "0 \<le> acc \<Longrightarrow> 0 \<le> foldl (\<lambda>acc b. 2 * acc + (if b then 1 else 0)) acc bits"
    for acc :: int
    by (induction bits arbitrary: acc) auto
  then show ?thesis by (simp add: binary_value_def)
qed

lemma int_base2_nonneg: "int_base2 m = Inr v \<Longrightarrow> 0 \<le> v"
  using binary_value_nonneg [of m] by (auto simp: int_base2_def split: if_splits)

lemma generator_runs:
  "\<exists>n. runs (snd (generator_quantum_number min_val max_val sim)) =
         runs sim @ replicate n (bit_length (max_val - min_val + 1))"
proof (induction "script sim" arbitrary: sim)
  case Nil
  then have "generator_quantum_number min_val max_val sim = (Starved, sim)"
    by (simp add: generator_starved)
  then show ?case by simp
next
  case (Cons r rest)
  let ?k = "bit_length (max_val - min_val + 1)"
  let ?sim' = "sim\<lparr>script := rest, runs := runs sim @ [?k]\<rparr>"
  from Cons.hyps(2) have s: "script sim = r # rest" by simp
  have one: "runs ?sim' = runs sim @ replicate 1 ?k" by simp
  show ?case
  proof (cases r)
    case (Inl e)
    with s have "generator_quantum_number min_val max_val sim = (Raise e, ?sim')"
      by (simp add: generator_raise)
    with one show ?thesis by (metis snd_conv)
  next
    case (Inr m)
    show ?thesis
    proof (cases "int_base2 m")
      case (Inl e)
      with s Inr have "generator_quantum_number min_val max_val sim = (Raise e, ?sim')"
        by (simp add: generator_unreadable)
      with one show ?thesis by (metis snd_conv)
    next
      case v: (Inr v)
      show ?thesis
      proof (cases "max_val - min_val + 1 \<le> v")
        case True
        with s Inr v have eq: "generator_quantum_number min_val max_val sim =
            generator_quantum_number min_val max_val ?sim'"
          by (simp add: generator_reject)
        have "rest = script ?sim'" by simp
        from Cons.hyps(1) [OF this] obtain n where
          "runs (snd (generator_quantum_number min_val max_val ?sim')) =
             runs ?sim' @ replicate n ?k" ..
        with eq have "runs (snd (generator_quantum_number min_val max_val sim)) =
            runs sim @ replicate (Suc n) ?k"
          by (simp add: replicate_append_same)
        then show ?thesis ..
      next
        case False
        with s Inr v have "generator_quantum_number min_val max_val sim =
            (Return (min_val + v), ?sim')"
          by (simp add: generator_accept)
        with one show ?thesis by (metis snd_conv)
      qed
    qed
  qed
qed

lemma generator_return_in_range:
  "generator_quantum_number min_val max_val sim = (Return n, sim') \<Longrightarrow>
   min_val \<le> n \<and> n \<le> max_val"
proof (induction "script sim" arbitrary: sim)
  case Nil
  then show ?case by (simp add: generator_starved)
next
  case (Cons r rest)
  let ?sim' = "sim\<lparr>script := rest, runs := runs sim @ [bit_length (max_val - min_val + 1)]\<rparr>"
  from Cons.hyps(2) have s: "script sim = r # rest" by simp
  show ?case
  proof (cases r)
    case (Inl e)
    with s Cons.prems show ?thesis by (simp add: generator_raise)
  next
    case (Inr m)
    show ?thesis
    proof (cases "int_base2 m")
      case (Inl e)
      with s Inr Cons.prems show ?thesis by (simp add: generator_unreadable)
    next
      case v: (Inr v)
      show ?thesis
      proof (cases "max_val - min_val + 1 \<le> v")
        case True
        with s Inr v Cons.prems
        have "generator_quantum_number min_val max_val ?sim' = (Return n, sim')"
          by (simp add: generator_reject)
        moreover have "rest = script ?sim'" by simp
        ultimately show ?thesis by (rule Cons.hyps(1) [rotated])
      next
        case False
        with s Inr v Cons.prems have "n = min_val + v"
          by (simp add: generator_accept)
        with False int_base2_nonneg [OF v] show ?thesis by simp
      qed
    qed
  qed
qed

lemma generator_runs_first:
  assumes "script sim = r # rest"
  shows "\<exists>n. runs (snd (generator_quantum_number min_val max_val sim)) =
         runs sim @ replicate (Suc n) (bit_length (max_val - min_val + 1))"
proof -
  let ?k = "bit_length (max_val - min_val + 1)"
  let ?sim' = "sim\<lparr>script := rest, runs := runs sim @ [?k]\<rparr>"
  obtain n where n: "runs (snd (generator_quantum_number min_val max_val ?sim')) =
      runs ?sim' @ replicate n ?k"
    using generator_runs by blast
  have "generator_quantum_number min_val max_val sim = generator_quantum_number min_val max_val ?sim'
      \<or> snd (generator_quantum_number min_val max_val sim) = ?sim'"
  proof (cases r)
    case (Inl e)
    with assms show ?thesis by (simp add: generator_raise)
  next
    case (Inr m)
    show ?thesis
    proof (cases "int_base2 m")
      case (Inl e)
      with assms Inr show ?thesis by (simp add: generator_unreadable)
    next
      case v: (Inr v)
      with assms Inr show ?thesis
        by (cases "max_val - min_val + 1 \<le> v") (simp_all add: generator_reject generator_accept)
    qed
  qed
  then show ?thesis
  proof
    assume "generator_quantum_number min_val max_val sim =
        generator_quantum_number min_val max_val ?sim'"
    with n have "runs (snd (generator_quantum_number min_val max_val sim)) =
        runs sim @ replicate (Suc n) ?k"
      by simp
    then show ?thesis ..
  next
    assume "snd (generator_quantum_number min_val max_val sim) = ?sim'"
    then have "runs (snd (generator_quantum_number min_val max_val sim)) =
        runs sim @ replicate (Suc 0) ?k"
      by simp
    then show ?thesis ..
  qed
qed

subsection \<open>The number of qubits\<close>

text \<open>
  What line 31 computes.  For a valid range the sampler asks for the same number \<open>k\<close> of
  qubits at every draw, the bit length of \<open>range_size\<close>, and
  \<open>2 ^ (k - 1) \<le> range_size < 2 ^ k\<close>.  Unless \<open>range_size\<close> is the power of two
  \<open>2 ^ (k - 1)\<close> this is the least number of qubits that covers the range, the one the
  comments of lines 29 and 33 speak of; at a power of two it is one qubit more.
\<close>

lemma num_qubits_brackets_range_size:
  "(min_val < max_val \<longrightarrow>
      (\<exists>k n. runs (snd (generator_quantum_number min_val max_val \<lparr>script = r # s, runs = []\<rparr>))
               = replicate (Suc n) k
           \<and> 2 ^ (k - 1) \<le> max_val - min_val + 1 \<and> max_val - min_val + 1 < 2 ^ k))
   \<and> bit_length 1 = 1 \<and> bit_length 2 = 2 \<and> bit_length 3 = 2"
proof (intro conjI impI)
  assume "min_val < max_val"
  then have "0 < max_val - min_val + 1" by simp
  from bit_length_bounds [OF this]
    generator_runs_first [of "\<lparr>script = r # s, runs = []\<rparr>" r s min_val max_val]
  show "\<exists>k n. runs (snd (generator_quantum_number min_val max_val \<lparr>script = r # s, runs = []\<rparr>))
               = replicate (Suc n) k
           \<and> 2 ^ (k - 1) \<le> max_val - min_val + 1 \<and> max_val - min_val + 1 < 2 ^ k"
    by auto
next
  show "bit_length 1 = 1" by code_simp
  show "bit_length 2 = 2" by code_simp
  show "bit_length 3 = 2" by code_simp
qed

lemma num_qubits_minimal_unless_power_of_two:
  assumes "min_val < max_val"
    and "max_val - min_val + 1 \<noteq> 2 ^ (bit_length (max_val - min_val + 1) - 1)"
  shows "2 ^ (bit_length (max_val - min_val + 1) - 1) < max_val - min_val + 1"
    and "max_val - min_val + 1 \<le> 2 ^ bit_length (max_val - min_val + 1)"
proof -
  from assms(1) have "0 < max_val - min_val + 1" by simp
  from bit_length_bounds [OF this] assms(2)
  show "2 ^ (bit_length (max_val - min_val + 1) - 1) < max_val - min_val + 1"
    and "max_val - min_val + 1 \<le> 2 ^ bit_length (max_val - min_val + 1)"
    by simp_all
qed

text \<open>
  C1.  The claim: the number \<open>k\<close> of qubits is the smallest with
  \<open>2 ^ k \<ge> range_size\<close>, so that \<open>2 ^ (k - 1) < range_size \<le> 2 ^ k\<close>.  The code, at
  the range 0 to 1: the range size is 2 and one qubit covers it (\<open>2 \<le> 2 ^ 1\<close>), but the
  sampler runs a circuit of 2 qubits, and \<open>2 ^ (2 - 1) < 2\<close> fails.  Line 31 takes the
  bit length of \<open>range_size\<close>, which is 1 for a size of 1, 2 for a size of 2 and 2 for a
  size of 3, where the claim has 0, 1 and 2.
\<close>

theorem range_of_two_takes_two_qubits:
  "runs (snd (generator_quantum_number 0 1 \<lparr>script = [Inr [False, False]], runs = []\<rparr>)) = [2]
   \<and> (1::int) - 0 + 1 \<le> 2 ^ 1
   \<and> \<not> (2 ^ (2 - 1) < (1::int) - 0 + 1)
   \<and> bit_length 1 = 1 \<and> bit_length 2 = 2 \<and> bit_length 3 = 2"
  by code_simp

subsection \<open>The returned value\<close>

text \<open>
  C2.  For every valid range and every script of simulator outcomes, with any log of
  earlier runs, a value \<open>n\<close> that \<open>generator_quantum_number\<close> returns satisfies
  \<open>min_val \<le> n \<le> max_val\<close>.
\<close>

theorem returned_value_in_range:
  "min_val < max_val \<Longrightarrow>
   generator_quantum_number min_val max_val sim = (Return n, sim') \<Longrightarrow>
   min_val \<le> n \<and> n \<le> max_val"
  by (rule generator_return_in_range)

theorem returned_value_in_range_witness:
  "(1::int) < 10 \<and>
   generator_quantum_number 1 10
     \<lparr>script = [Inr [True, True, False, False], Inr [True, False, False, True]], runs = []\<rparr>
     = (Return 10, \<lparr>script = [], runs = [4, 4]\<rparr>)
   \<and> (1::int) \<le> 10 \<and> (10::int) \<le> 10"
proof -
  have run: "generator_quantum_number 1 10
     \<lparr>script = [Inr [True, True, False, False], Inr [True, False, False, True]], runs = []\<rparr>
     = (Return 10, \<lparr>script = [], runs = [4, 4]\<rparr>)"
    by code_simp
  from returned_value_in_range [OF _ run] run show ?thesis by simp
qed

text \<open>
  C3.  For every valid range: when the script begins with any number of draws whose value
  is at least \<open>range_size\<close>, followed by a draw of value \<open>v < range_size\<close>, the sampler
  returns \<open>min_val + v\<close>, whatever the rejected draws were; it has run the simulator once
  per draw, each time for a fresh register of \<open>bit_length range_size\<close> qubits, and has
  left the rest of the script untouched.  For the range 1 to 10 and the draws 1011 and
  0011 (11 and 3) the result is 4.
\<close>

theorem rejected_draws_are_discarded:
  "(min_val < max_val \<longrightarrow>
    (\<forall>m \<in> set rejected. \<exists>v. int_base2 m = Inr v \<and> max_val - min_val + 1 \<le> v) \<longrightarrow>
    int_base2 accepted = Inr v \<longrightarrow> v < max_val - min_val + 1 \<longrightarrow>
    generator_quantum_number min_val max_val
      \<lparr>script = map Inr rejected @ Inr accepted # rest, runs = prior\<rparr>
    = (Return (min_val + v),
       \<lparr>script = rest,
        runs = prior @ replicate (Suc (length rejected)) (bit_length (max_val - min_val + 1))\<rparr>))
   \<and> fst (generator_quantum_number 1 10
        \<lparr>script = [Inr [True, False, True, True], Inr [False, False, True, True]], runs = []\<rparr>)
     = Return 4"
proof (intro conjI impI)
  let ?k = "bit_length (max_val - min_val + 1)"
  assume rej: "\<forall>m \<in> set rejected. \<exists>v. int_base2 m = Inr v \<and> max_val - min_val + 1 \<le> v"
    and acc: "int_base2 accepted = Inr v" "v < max_val - min_val + 1"
  have "generator_quantum_number min_val max_val
      \<lparr>script = map Inr rejected @ Inr accepted # rest, runs = prior\<rparr>
    = generator_quantum_number min_val max_val
      \<lparr>script = Inr accepted # rest, runs = prior @ replicate (length rejected) ?k\<rparr>"
    using rej by (rule generator_rejections)
  also have "\<dots> = (Return (min_val + v),
       \<lparr>script = rest, runs = (prior @ replicate (length rejected) ?k) @ [?k]\<rparr>)"
    using generator_accept [where sim = "\<lparr>script = Inr accepted # rest,
        runs = prior @ replicate (length rejected) ?k\<rparr>", OF _ acc]
    by simp
  finally show "generator_quantum_number min_val max_val
      \<lparr>script = map Inr rejected @ Inr accepted # rest, runs = prior\<rparr>
    = (Return (min_val + v),
       \<lparr>script = rest, runs = prior @ replicate (Suc (length rejected)) ?k\<rparr>)"
    by (simp add: replicate_append_same)
next
  show "fst (generator_quantum_number 1 10
        \<lparr>script = [Inr [True, False, True, True], Inr [False, False, True, True]], runs = []\<rparr>)
     = Return 4"
    by code_simp
qed

theorem rejected_draws_are_discarded_witness:
  "(1::int) < 10
   \<and> int_base2 [True, False, True, True] = Inr 11 \<and> (10::int) - 1 + 1 \<le> 11
   \<and> int_base2 [True, True, True, True] = Inr 15 \<and> (10::int) - 1 + 1 \<le> 15
   \<and> int_base2 [False, False, True, True] = Inr 3 \<and> (3::int) < 10 - 1 + 1
   \<and> generator_quantum_number 1 10
        \<lparr>script = [Inr [True, False, True, True], Inr [True, True, True, True],
                   Inr [False, False, True, True], Inl (LibraryError ''unused'')],
         runs = []\<rparr>
      = (Return 4, \<lparr>script = [Inl (LibraryError ''unused'')], runs = [4, 4, 4]\<rparr>)"
proof -
  have rej: "int_base2 [True, False, True, True] = Inr 11"
    "int_base2 [True, True, True, True] = Inr 15"
    by (simp_all add: int_base2_def binary_value_def)
  have acc: "int_base2 [False, False, True, True] = Inr 3"
    by (simp add: int_base2_def binary_value_def)
  have k: "bit_length 10 = 4" by code_simp
  from rejected_draws_are_discarded [of 1 10 "[[True, False, True, True], [True, True, True, True]]"
      "[False, False, True, True]" 3 "[Inl (LibraryError ''unused'')]" "[]"] rej acc k
  show ?thesis by simp
qed

subsection \<open>The chance of acceptance\<close>

text \<open>
  What follows from line 31 for the chance \<open>range_size / 2 ^ k\<close> that a draw is accepted:
  it is at least 1/2, and more than 1/2 unless \<open>range_size\<close> is the power of two
  \<open>2 ^ (k - 1)\<close>, where the extra qubit of line 31 makes it exactly 1/2.
\<close>

lemma acceptance_at_least_half:
  "min_val < max_val \<Longrightarrow>
   \<exists>k n. runs (snd (generator_quantum_number min_val max_val \<lparr>script = r # s, runs = []\<rparr>))
            = replicate (Suc n) k
     \<and> 2 ^ k \<le> 2 * (max_val - min_val + 1)
     \<and> (2 * (max_val - min_val + 1) > 2 ^ k \<longleftrightarrow> max_val - min_val + 1 \<noteq> 2 ^ (k - 1))
     \<and> 1 / 2 \<le> real_of_int (max_val - min_val + 1) / 2 ^ k
     \<and> 2 ^ k / real_of_int (max_val - min_val + 1) \<le> 2"
proof -
  let ?size = "max_val - min_val + 1"
  let ?k = "bit_length ?size"
  assume "min_val < max_val"
  then have pos: "0 < ?size" by simp
  from bit_length_bounds [OF pos]
  have lower: "2 ^ (?k - 1) \<le> ?size" and upper: "?size < 2 ^ ?k" by simp_all
  from upper pos have "?k \<noteq> 0" by (cases "?k = 0") simp_all
  then have "?k = Suc (?k - 1)" by simp
  then have double: "(2::int) ^ ?k = 2 * 2 ^ (?k - 1)" by (metis power_Suc)
  from lower double have le: "2 ^ ?k \<le> 2 * ?size" by simp
  from lower double have strict: "2 * ?size > 2 ^ ?k \<longleftrightarrow> ?size \<noteq> 2 ^ (?k - 1)" by auto
  from le have "real_of_int (2 ^ ?k) \<le> real_of_int (2 * ?size)" by (simp only: of_int_le_iff)
  then have rle: "(2::real) ^ ?k \<le> 2 * real_of_int ?size" by simp
  from pos have rpos: "0 < real_of_int ?size" by simp
  have half: "1 / 2 \<le> real_of_int ?size / 2 ^ ?k"
    using rle by (simp add: field_simps)
  have draws: "2 ^ ?k / real_of_int ?size \<le> 2"
    using rle rpos by (simp add: field_simps)
  obtain n where "runs (snd (generator_quantum_number min_val max_val \<lparr>script = r # s, runs = []\<rparr>))
      = replicate (Suc n) ?k"
    using generator_runs_first [of "\<lparr>script = r # s, runs = []\<rparr>" r s min_val max_val] by auto
  with le strict half draws show ?thesis by blast
qed

text \<open>
  C4.  The claim: \<open>2 * range_size > 2 ^ k\<close>, a draw is accepted with a chance of more
  than 1/2.  The code, at the range 0 to 3: the range size is 4 and 2 qubits cover it
  (\<open>4 \<le> 2 ^ 2\<close>), but the sampler runs a circuit of 3 qubits, and
  \<open>2 * 4 > 2 ^ 3\<close> fails: half of the draws are rejected.
\<close>

theorem range_of_four_accepts_half:
  "runs (snd (generator_quantum_number 0 3 \<lparr>script = [Inr [True, False, False]], runs = []\<rparr>)) = [3]
   \<and> \<not> (2 * ((3::int) - 0 + 1) > 2 ^ 3)
   \<and> (3::int) - 0 + 1 \<le> 2 ^ 2"
  by code_simp

subsection \<open>The bit width\<close>

text \<open>
  The width of every draw is \<open>bit_length (max_val - min_val + 1)\<close>, the least \<open>k\<close> with
  \<open>2 ^ k\<close> greater than the size of the range.
\<close>

lemma bit_width_is_bit_length:
  "min_val < max_val \<Longrightarrow>
   (\<exists>n. runs (snd (generator_quantum_number min_val max_val \<lparr>script = r # s, runs = []\<rparr>))
          = replicate (Suc n) (bit_length (max_val - min_val + 1)))
   \<and> max_val - min_val + 1 < 2 ^ bit_length (max_val - min_val + 1)
   \<and> (\<forall>j. max_val - min_val + 1 < 2 ^ j \<longrightarrow> bit_length (max_val - min_val + 1) \<le> j)"
proof -
  assume "min_val < max_val"
  then have pos: "0 < max_val - min_val + 1" by simp
  have "\<exists>n. runs (snd (generator_quantum_number min_val max_val \<lparr>script = r # s, runs = []\<rparr>))
          = replicate (Suc n) (bit_length (max_val - min_val + 1))"
    using generator_runs_first [of "\<lparr>script = r # s, runs = []\<rparr>" r s min_val max_val] by simp
  moreover from bit_length_bounds [OF pos]
  have "max_val - min_val + 1 < 2 ^ bit_length (max_val - min_val + 1)" by simp
  moreover have "\<forall>j. max_val - min_val + 1 < 2 ^ j \<longrightarrow> bit_length (max_val - min_val + 1) \<le> j"
    using pos by (simp add: bit_length_least)
  ultimately show ?thesis by blast
qed

text \<open>
  C6.  The claim: the width of a draw is \<open>bit_length (max_val - min_val + 1)\<close>, and it
  is the least number of bits whose \<open>2 ^ k\<close> values are at least as many as the numbers
  of the range.  The code, at the range 1 to 8: the width is
  \<open>bit_length (8 - 1 + 1) = 4\<close>, although \<open>2 ^ 3\<close> values cover the 8 numbers of the
  range.
\<close>

theorem range_of_eight_draws_four_bits:
  "runs (snd (generator_quantum_number 1 8
            \<lparr>script = [Inr [True, False, False, False]], runs = []\<rparr>))
     = [bit_length (8 - 1 + 1)]
   \<and> bit_length (8 - 1 + 1) = 4
   \<and> (8::int) - 1 + 1 \<le> 2 ^ 3"
  by code_simp

subsection \<open>Exceptions of the simulator\<close>



subsection \<open>The range of one number\<close>

text \<open>
  C8.  Called with \<open>max_val = min_val\<close>, the sampler returns nothing but \<open>min_val\<close>:
  the range size is 1, every draw is of one bit, a draw of value 0 is accepted and gives
  \<open>min_val\<close>, and every other draw is rejected.
\<close>

theorem degenerate_range_returns_min:
  "(generator_quantum_number min_val min_val sim = (Return n, sim') \<longrightarrow> n = min_val)
   \<and> (\<exists>n. runs (snd (generator_quantum_number min_val min_val \<lparr>script = r # s, runs = []\<rparr>))
            = replicate (Suc n) 1)
   \<and> (int_base2 m = Inr v \<longrightarrow>
        generator_quantum_number min_val min_val \<lparr>script = Inr m # rest, runs = prior\<rparr>
        = (if v = 0 then (Return min_val, \<lparr>script = rest, runs = prior @ [1]\<rparr>)
           else generator_quantum_number min_val min_val \<lparr>script = rest, runs = prior @ [1]\<rparr>))"
proof (intro conjI impI)
  have k: "bit_length (min_val - min_val + 1) = 1" by (simp add: bit_length_def nat_bit_length.simps)
  {
    assume "generator_quantum_number min_val min_val sim = (Return n, sim')"
    from generator_return_in_range [OF this] show "n = min_val" by simp
  next
    show "\<exists>n. runs (snd (generator_quantum_number min_val min_val \<lparr>script = r # s, runs = []\<rparr>))
            = replicate (Suc n) 1"
      using generator_runs_first [of "\<lparr>script = r # s, runs = []\<rparr>" r s min_val min_val] k
      by simp
  next
    assume v: "int_base2 m = Inr v"
    then have "0 \<le> v" by (rule int_base2_nonneg)
    show "generator_quantum_number min_val min_val \<lparr>script = Inr m # rest, runs = prior\<rparr>
        = (if v = 0 then (Return min_val, \<lparr>script = rest, runs = prior @ [1]\<rparr>)
           else generator_quantum_number min_val min_val \<lparr>script = rest, runs = prior @ [1]\<rparr>)"
    proof (cases "v = 0")
      case True
      with generator_accept [where sim = "\<lparr>script = Inr m # rest, runs = prior\<rparr>"
          and min_val = min_val and max_val = min_val, OF _ v] k
      show ?thesis by simp
    next
      case False
      with \<open>0 \<le> v\<close> have "min_val - min_val + 1 \<le> v" by simp
      with generator_reject [where sim = "\<lparr>script = Inr m # rest, runs = prior\<rparr>"
          and min_val = min_val and max_val = min_val, OF _ v] k False
      show ?thesis by simp
    qed
  }
qed

theorem degenerate_range_returns_min_witness:
  "generator_quantum_number 7 7 \<lparr>script = [Inr [True], Inr [False]], runs = []\<rparr>
     = (Return 7, \<lparr>script = [], runs = [1, 1]\<rparr>)
   \<and> int_base2 [True] = Inr 1
   \<and> generator_quantum_number 7 7 \<lparr>script = [Inr [True], Inr [False]], runs = []\<rparr>
     = generator_quantum_number 7 7 \<lparr>script = [Inr [False]], runs = [1]\<rparr>"
proof -
  have run: "generator_quantum_number 7 7 \<lparr>script = [Inr [True], Inr [False]], runs = []\<rparr>
     = (Return 7, \<lparr>script = [], runs = [1, 1]\<rparr>)"
    by code_simp
  have one: "int_base2 [True] = Inr 1"
    by (simp add: int_base2_def binary_value_def)
  from degenerate_range_returns_min [of 7 "\<lparr>script = [Inr [True], Inr [False]], runs = []\<rparr>" 7
      "\<lparr>script = [], runs = [1, 1]\<rparr>" _ _ "[True]" 1 "[Inr [False]]" "[]"] run one
  show ?thesis by simp
qed

subsection \<open>The command line\<close>

text \<open>
  What \<open>main\<close> does before it generates: the check of the range, and the image when
  \<^verbatim>\<open>--image\<close> is given.
\<close>

lemma invalid_range_exits:
  "args_max args \<le> args_min args \<Longrightarrow>
   main args w = (Exit 1, w\<lparr>stdout := stdout w @
     [''Starting quantum random number generation...'',
      ''Error: Minimum value must be less than maximum value.'']\<rparr>)"
  by (simp add: main_def print_def)

lemma draw_and_save_done:
  "drawer w q = None \<Longrightarrow>
   draw_and_save q w = (Inr (),
     w\<lparr>stdout := stdout w @
          [''Loading quantum circuit image for '' @ str_int q @ ''...'',
           ''Quantum circuit image saved as images/quantum_circuit_'' @ str_int q @ ''_qubits.png.''],
        images := images w @ [''images/quantum_circuit_'' @ str_int q @ ''_qubits.png'']\<rparr>)"
  by (simp add: draw_and_save_def print_def path_join_def IMG_DIR_def)

lemma draw_and_save_failed:
  "drawer w q = Some e \<Longrightarrow>
   draw_and_save q w = (Inl e,
     w\<lparr>stdout := stdout w @ [''Loading quantum circuit image for '' @ str_int q @ ''...'']\<rparr>)"
  by (simp add: draw_and_save_def print_def)

lemma benchmark_aer:
  "aer (snd (benchmark min_val max_val iterations w)) =
   snd (benchmark_loop (nat iterations) min_val max_val [] (aer w))"
  by (simp add: benchmark_def print_def Let_def split: prod.splits outcome.splits option.splits)

lemma benchmark_stdout:
  "\<exists>tail. stdout (snd (benchmark min_val max_val iterations w)) =
     stdout w @ (''Benchmarking quantum random number generator for '' @ str_int iterations
                 @ '' iterations between '' @ str_int min_val @ '' and '' @ str_int max_val
                 @ ''...'') # tail
   \<and> (tail = [] \<or> tail = [''Benchmark histogram saved as images/benchmark_quantum_''
          @ str_int iterations @ ''.png.''])"
  by (simp add: benchmark_def print_def Let_def path_join_def IMG_DIR_def
      split: prod.splits outcome.splits option.splits)


lemma main_preamble:
  assumes "args_image args \<longrightarrow> drawer w (args_qubits args) = None"
  shows "(if args_image args
          then draw_and_save (args_qubits args)
                 (print ''Starting quantum random number generation...'' w)
          else (Inr (), print ''Starting quantum random number generation...'' w))
       = (Inr (),
          w\<lparr>stdout := stdout w @ ''Starting quantum random number generation...''
               # (if args_image args
                  then [''Loading quantum circuit image for '' @ str_int (args_qubits args) @ ''...'',
                        ''Quantum circuit image saved as images/quantum_circuit_''
                          @ str_int (args_qubits args) @ ''_qubits.png.'']
                  else []),
             images := images w @
               (if args_image args
                then [''images/quantum_circuit_'' @ str_int (args_qubits args) @ ''_qubits.png'']
                else [])\<rparr>)"
proof (cases "args_image args")
  case True
  with assms have "drawer (print ''Starting quantum random number generation...'' w)
      (args_qubits args) = None"
    by (simp add: print_def)
  from draw_and_save_done [OF this] True show ?thesis by (simp add: print_def)
next
  case False
  then show ?thesis by (simp add: print_def)
qed

lemma main_single_path:
  assumes "args_min args < args_max args" and "\<not> args_benchmark args"
    and "args_image args \<longrightarrow> drawer w (args_qubits args) = None"
  shows "fst (main args w) =
           (case fst (generator_quantum_number (args_min args) (args_max args) (aer w)) of
              Return n \<Rightarrow> Exit 0 | Raise e \<Rightarrow> Exit 0 | Starved \<Rightarrow> Unfinished)"
    and "aer (snd (main args w)) =
           snd (generator_quantum_number (args_min args) (args_max args) (aer w))"
    and "stdout (snd (main args w)) =
           stdout w @ ''Starting quantum random number generation...''
           # (if args_image args
              then [''Loading quantum circuit image for '' @ str_int (args_qubits args) @ ''...'',
                    ''Quantum circuit image saved as images/quantum_circuit_''
                      @ str_int (args_qubits args) @ ''_qubits.png.'']
              else [])
           @ (''Generating a random number between '' @ str_int (args_min args) @ '' and ''
                @ str_int (args_max args) @ ''...'')
           # (case fst (generator_quantum_number (args_min args) (args_max args) (aer w)) of
                Return n \<Rightarrow> [''Generated random number: '' @ str_int n]
              | Raise e \<Rightarrow> [''An error occurred during random number generation: '' @ str_exn e]
              | Starved \<Rightarrow> [])"
    and "images (snd (main args w)) =
           images w @ (if args_image args
                       then [''images/quantum_circuit_'' @ str_int (args_qubits args) @ ''_qubits.png'']
                       else [])"
proof -
  obtain res sim' where gen:
    "generator_quantum_number (args_min args) (args_max args) (aer w) = (res, sim')"
    by (cases "generator_quantum_number (args_min args) (args_max args) (aer w)")
  have m: "main args w =
    (let w3 = print (''Generating a random number between ''
                              @ str_int (args_min args) @ '' and '' @ str_int (args_max args)
                              @ ''...'')
          (w\<lparr>stdout := stdout w @ ''Starting quantum random number generation...''
               # (if args_image args
                  then [''Loading quantum circuit image for '' @ str_int (args_qubits args) @ ''...'',
                        ''Quantum circuit image saved as images/quantum_circuit_''
                          @ str_int (args_qubits args) @ ''_qubits.png.'']
                  else []),
             images := images w @
               (if args_image args
                then [''images/quantum_circuit_'' @ str_int (args_qubits args) @ ''_qubits.png'']
                else [])\<rparr>)
     in case res of
          Return random_number \<Rightarrow>
            (Exit 0, print (''Generated random number: '' @ str_int random_number)
                       (w3\<lparr>aer := sim'\<rparr>))
        | Raise e \<Rightarrow>
            (Exit 0, print (''An error occurred during random number generation: '' @ str_exn e)
                       (w3\<lparr>aer := sim'\<rparr>))
        | Starved \<Rightarrow> (Unfinished, w3\<lparr>aer := sim'\<rparr>))"
    unfolding main_def Let_def main_preamble [OF assms(3)]
    using assms(1,2) gen by (cases res) (simp_all add: print_def)
  show "fst (main args w) =
           (case fst (generator_quantum_number (args_min args) (args_max args) (aer w)) of
              Return n \<Rightarrow> Exit 0 | Raise e \<Rightarrow> Exit 0 | Starved \<Rightarrow> Unfinished)"
    by (cases res) (simp_all add: m gen)
  show "aer (snd (main args w)) =
           snd (generator_quantum_number (args_min args) (args_max args) (aer w))"
    by (cases res) (simp_all add: m gen print_def)
  show "stdout (snd (main args w)) =
           stdout w @ ''Starting quantum random number generation...''
           # (if args_image args
              then [''Loading quantum circuit image for '' @ str_int (args_qubits args) @ ''...'',
                    ''Quantum circuit image saved as images/quantum_circuit_''
                      @ str_int (args_qubits args) @ ''_qubits.png.'']
              else [])
           @ (''Generating a random number between '' @ str_int (args_min args) @ '' and ''
                @ str_int (args_max args) @ ''...'')
           # (case fst (generator_quantum_number (args_min args) (args_max args) (aer w)) of
                Return n \<Rightarrow> [''Generated random number: '' @ str_int n]
              | Raise e \<Rightarrow> [''An error occurred during random number generation: '' @ str_exn e]
              | Starved \<Rightarrow> [])"
    by (cases res) (simp_all add: m gen print_def)
  show "images (snd (main args w)) =
           images w @ (if args_image args
                       then [''images/quantum_circuit_'' @ str_int (args_qubits args) @ ''_qubits.png'']
                       else [])"
    by (cases res) (simp_all add: m gen print_def)
qed

lemma main_benchmark_path:
  assumes "args_min args < args_max args" and "args_benchmark args"
    and "args_image args \<longrightarrow> drawer w (args_qubits args) = None"
  shows "aer (snd (main args w)) =
           snd (benchmark_loop (nat (args_iterations args)) (args_min args) (args_max args) []
                  (aer w))"
    and "\<exists>tail. stdout (snd (main args w)) =
           stdout w @ ''Starting quantum random number generation...''
           # (if args_image args
              then [''Loading quantum circuit image for '' @ str_int (args_qubits args) @ ''...'',
                    ''Quantum circuit image saved as images/quantum_circuit_''
                      @ str_int (args_qubits args) @ ''_qubits.png.'']
              else [])
           @ (''Benchmarking quantum random number generator for ''
                @ str_int (args_iterations args) @ '' iterations between ''
                @ str_int (args_min args) @ '' and '' @ str_int (args_max args) @ ''...'')
           # tail
         \<and> (tail = [] \<or> tail = [''Benchmark histogram saved as images/benchmark_quantum_''
               @ str_int (args_iterations args) @ ''.png.''])"
proof -
  let ?w2 = "w\<lparr>stdout := stdout w @ ''Starting quantum random number generation...''
               # (if args_image args
                  then [''Loading quantum circuit image for '' @ str_int (args_qubits args) @ ''...'',
                        ''Quantum circuit image saved as images/quantum_circuit_''
                          @ str_int (args_qubits args) @ ''_qubits.png.'']
                  else []),
             images := images w @
               (if args_image args
                then [''images/quantum_circuit_'' @ str_int (args_qubits args) @ ''_qubits.png'']
                else [])\<rparr>"
  have m: "snd (main args w) =
      snd (benchmark (args_min args) (args_max args) (args_iterations args) ?w2)"
    unfolding main_def Let_def main_preamble [OF assms(3)]
    using assms(1,2) by (simp split: prod.splits outcome.splits)
  show "aer (snd (main args w)) =
           snd (benchmark_loop (nat (args_iterations args)) (args_min args) (args_max args) []
                  (aer w))"
    by (simp add: m benchmark_aer)
  from benchmark_stdout [of "args_min args" "args_max args" "args_iterations args" ?w2]
  obtain tail where "stdout (snd (main args w)) =
      stdout ?w2 @ (''Benchmarking quantum random number generator for ''
                @ str_int (args_iterations args) @ '' iterations between ''
                @ str_int (args_min args) @ '' and '' @ str_int (args_max args) @ ''...'')
           # tail"
    and "tail = [] \<or> tail = [''Benchmark histogram saved as images/benchmark_quantum_''
               @ str_int (args_iterations args) @ ''.png.'']"
    unfolding m by blast
  then show "\<exists>tail. stdout (snd (main args w)) =
           stdout w @ ''Starting quantum random number generation...''
           # (if args_image args
              then [''Loading quantum circuit image for '' @ str_int (args_qubits args) @ ''...'',
                    ''Quantum circuit image saved as images/quantum_circuit_''
                      @ str_int (args_qubits args) @ ''_qubits.png.'']
              else [])
           @ (''Benchmarking quantum random number generator for ''
                @ str_int (args_iterations args) @ '' iterations between ''
                @ str_int (args_min args) @ '' and '' @ str_int (args_max args) @ ''...'')
           # tail
         \<and> (tail = [] \<or> tail = [''Benchmark histogram saved as images/benchmark_quantum_''
               @ str_int (args_iterations args) @ ''.png.''])"
    by (intro exI [of _ tail]) simp
qed

text \<open>
  C5.  With \<open>min \<ge> max\<close> the process prints its first line and the error message and
  exits with status 1; the simulator is not run (its script and its log are as before),
  no image is drawn and no histogram is plotted.
\<close>

theorem invalid_range_rejected_before_any_work:
  "args_min args \<ge> args_max args \<Longrightarrow>
   main args w = (Exit 1, w\<lparr>stdout := stdout w @
       [''Starting quantum random number generation...'',
        ''Error: Minimum value must be less than maximum value.'']\<rparr>)
   \<and> exit_status (fst (main args w)) = Some 1
   \<and> aer (snd (main args w)) = aer w
   \<and> images (snd (main args w)) = images w"
  by (simp add: invalid_range_exits)

theorem invalid_range_rejected_before_any_work_witness:
  "args_min (default_args\<lparr>args_min := 0, args_max := 0, args_image := True,
                          args_benchmark := True\<rparr>)
     \<ge> args_max (default_args\<lparr>args_min := 0, args_max := 0, args_image := True,
                               args_benchmark := True\<rparr>)
   \<and> main (default_args\<lparr>args_min := 0, args_max := 0, args_image := True, args_benchmark := True\<rparr>)
        (start_world [Inr [False]])
      = (Exit 1,
         (start_world [Inr [False]])
           \<lparr>stdout := [''Starting quantum random number generation...'',
                       ''Error: Minimum value must be less than maximum value.'']\<rparr>)
   \<and> runs (aer (snd (main (default_args\<lparr>args_min := 0, args_max := 0, args_image := True,
                                         args_benchmark := True\<rparr>)
                        (start_world [Inr [False]])))) = []"
  using invalid_range_rejected_before_any_work
    [of "default_args\<lparr>args_min := 0, args_max := 0, args_image := True, args_benchmark := True\<rparr>"
        "start_world [Inr [False]]"]
  by (simp add: default_args_def start_world_def)

text \<open>
  C9 (as amended).  For a valid range, when the image asked for by \<^verbatim>\<open>--image\<close> has been
  drawn without an exception (or none was asked for), exactly one of the two generation
  paths runs.  With the benchmark flag the benchmark announces itself, no single
  generation is announced or reported, and the simulator has served the loop of the
  benchmark; without it the single generation is announced, no benchmark is, and the
  simulator has served one call of \<open>generator_quantum_number\<close>.
\<close>

theorem one_generation_path_after_rendering:
  assumes "args_min args < args_max args"
    and "args_image args \<longrightarrow> drawer w (args_qubits args) = None"
  shows "if args_benchmark args
         then announced ''Benchmarking'' (printed w (snd (main args w)))
            \<and> \<not> announced ''Generating'' (printed w (snd (main args w)))
            \<and> \<not> announced ''Generated'' (printed w (snd (main args w)))
            \<and> aer (snd (main args w)) =
                snd (benchmark_loop (nat (args_iterations args)) (args_min args) (args_max args)
                       [] (aer w))
         else announced ''Generating'' (printed w (snd (main args w)))
            \<and> \<not> announced ''Benchmark'' (printed w (snd (main args w)))
            \<and> aer (snd (main args w)) =
                snd (generator_quantum_number (args_min args) (args_max args) (aer w))"
proof (cases "args_benchmark args")
  case True
  from main_benchmark_path(2) [OF assms(1) True assms(2)] obtain tail where
    out: "stdout (snd (main args w)) =
           stdout w @ ''Starting quantum random number generation...''
           # (if args_image args
              then [''Loading quantum circuit image for '' @ str_int (args_qubits args) @ ''...'',
                    ''Quantum circuit image saved as images/quantum_circuit_''
                      @ str_int (args_qubits args) @ ''_qubits.png.'']
              else [])
           @ (''Benchmarking quantum random number generator for ''
                @ str_int (args_iterations args) @ '' iterations between ''
                @ str_int (args_min args) @ '' and '' @ str_int (args_max args) @ ''...'')
           # tail"
    and tail: "tail = [] \<or> tail = [''Benchmark histogram saved as images/benchmark_quantum_''
               @ str_int (args_iterations args) @ ''.png.'']"
    by blast
  have "announced ''Benchmarking'' (printed w (snd (main args w)))"
    by (simp add: out printed_def announced_def)
  moreover have "\<not> announced ''Generating'' (printed w (snd (main args w)))"
    using tail by (auto simp: out printed_def announced_def)
  moreover have "\<not> announced ''Generated'' (printed w (snd (main args w)))"
    using tail by (auto simp: out printed_def announced_def)
  ultimately show ?thesis
    using True main_benchmark_path(1) [OF assms(1) True assms(2)] by simp
next
  case False
  note out = main_single_path(3) [OF assms(1) False assms(2)]
  have "announced ''Generating'' (printed w (snd (main args w)))"
    by (simp add: out printed_def announced_def)
  moreover have "\<not> announced ''Benchmark'' (printed w (snd (main args w)))"
    by (cases "fst (generator_quantum_number (args_min args) (args_max args) (aer w))")
      (auto simp: out printed_def announced_def)
  ultimately show ?thesis
    using False main_single_path(2) [OF assms(1) False assms(2)] by simp
qed

theorem one_generation_path_after_rendering_witness:
  "args_min (default_args\<lparr>args_min := 1, args_max := 10, args_image := True\<rparr>) < args_max (default_args\<lparr>args_min := 1, args_max := 10, args_image := True\<rparr>)
   \<and> args_image (default_args\<lparr>args_min := 1, args_max := 10, args_image := True\<rparr>)
   \<and> drawer (start_world [Inr [False, True, True, False]]) (args_qubits (default_args\<lparr>args_min := 1, args_max := 10, args_image := True\<rparr>)) = None
   \<and> \<not> args_benchmark (default_args\<lparr>args_min := 1, args_max := 10, args_image := True\<rparr>)
   \<and> announced ''Generating''
        (printed (start_world [Inr [False, True, True, False]]) (snd (main (default_args\<lparr>args_min := 1, args_max := 10, args_image := True\<rparr>) (start_world [Inr [False, True, True, False]]))))
   \<and> \<not> announced ''Benchmark''
        (printed (start_world [Inr [False, True, True, False]]) (snd (main (default_args\<lparr>args_min := 1, args_max := 10, args_image := True\<rparr>) (start_world [Inr [False, True, True, False]]))))
   \<and> aer (snd (main (default_args\<lparr>args_min := 1, args_max := 10, args_image := True\<rparr>) (start_world [Inr [False, True, True, False]])))
      = \<lparr>script = [], runs = [4]\<rparr>"
proof -
  have run: "generator_quantum_number 1 10 \<lparr>script = [Inr [False, True, True, False]], runs = []\<rparr>
      = (Return 7, \<lparr>script = [], runs = [4]\<rparr>)"
    by code_simp
  from one_generation_path_after_rendering
    [of "default_args\<lparr>args_min := 1, args_max := 10, args_image := True\<rparr>" "(start_world [Inr [False, True, True, False]])"] run
  show ?thesis by (simp add: default_args_def start_world_def library_drawer_def)
qed

text \<open>
  With \<^verbatim>\<open>--image --qubits -1\<close> and the default range 0 to 100, where the circuit library
  refuses a register of negative size, the exception of \<open>draw_and_save\<close> ends the process:
  neither path has run.
\<close>

theorem rendering_failure_skips_both_paths_counterexample:
  "args_min (default_args\<lparr>args_image := True, args_qubits := - 1\<rparr>) < args_max (default_args\<lparr>args_image := True, args_qubits := - 1\<rparr>)
   \<and> fst (main (default_args\<lparr>args_image := True, args_qubits := - 1\<rparr>) (start_world [Inr [False, False, False, False, False, False, True]]))
      = Traceback (LibraryError ''Register size must be non-negative'')
   \<and> stdout (snd (main (default_args\<lparr>args_image := True, args_qubits := - 1\<rparr>) (start_world [Inr [False, False, False, False, False, False, True]])))
      = [''Starting quantum random number generation...'',
         ''Loading quantum circuit image for -1...'']
   \<and> \<not> announced ''Benchmarking''
        (printed (start_world [Inr [False, False, False, False, False, False, True]]) (snd (main (default_args\<lparr>args_image := True, args_qubits := - 1\<rparr>) (start_world [Inr [False, False, False, False, False, False, True]]))))
   \<and> \<not> announced ''Generating''
        (printed (start_world [Inr [False, False, False, False, False, False, True]]) (snd (main (default_args\<lparr>args_image := True, args_qubits := - 1\<rparr>) (start_world [Inr [False, False, False, False, False, False, True]]))))
   \<and> runs (aer (snd (main (default_args\<lparr>args_image := True, args_qubits := - 1\<rparr>) (start_world [Inr [False, False, False, False, False, False, True]])))) = []"
  by (simp add: main_def default_args_def start_world_def library_drawer_def print_def
      draw_and_save_def str_int_def str_nat.simps printed_def announced_def)

text \<open>
  C10.  In the single generation (valid range, no benchmark flag, the image drawn if asked
  for), the process never ends with a status other than 0; when the generation raises
  \<open>e\<close>, the last line printed is the message with \<open>str(e)\<close> and the status is 0.
\<close>

theorem single_generation_errors_exit_zero:
  assumes "args_min args < args_max args" and "\<not> args_benchmark args"
    and "args_image args \<longrightarrow> drawer w (args_qubits args) = None"
  shows "(\<forall>status. exit_status (fst (main args w)) = Some status \<longrightarrow> status = 0)
    \<and> (\<forall>e sim'. generator_quantum_number (args_min args) (args_max args) (aer w) = (Raise e, sim')
          \<longrightarrow> fst (main args w) = Exit 0
            \<and> last (stdout (snd (main args w))) =
                ''An error occurred during random number generation: '' @ str_exn e
            \<and> aer (snd (main args w)) = sim')"
proof (intro conjI allI impI)
  fix status
  assume "exit_status (fst (main args w)) = Some status"
  then show "status = 0"
    unfolding main_single_path(1) [OF assms]
    by (cases "fst (generator_quantum_number (args_min args) (args_max args) (aer w))") simp_all
next
  fix e sim'
  assume raised: "generator_quantum_number (args_min args) (args_max args) (aer w) = (Raise e, sim')"
  show "fst (main args w) = Exit 0"
    by (simp add: main_single_path(1) [OF assms] raised)
  show "last (stdout (snd (main args w))) =
      ''An error occurred during random number generation: '' @ str_exn e"
    by (simp add: main_single_path(3) [OF assms] raised)
  show "aer (snd (main args w)) = sim'"
    by (simp add: main_single_path(2) [OF assms] raised)
qed

theorem single_generation_errors_exit_zero_witness:
  "args_min (default_args\<lparr>args_min := 1, args_max := 6, args_image := True\<rparr>) < args_max (default_args\<lparr>args_min := 1, args_max := 6, args_image := True\<rparr>)
   \<and> \<not> args_benchmark (default_args\<lparr>args_min := 1, args_max := 6, args_image := True\<rparr>)
   \<and> args_image (default_args\<lparr>args_min := 1, args_max := 6, args_image := True\<rparr>)
   \<and> drawer (start_world [Inr [True, True, True], Inl (LibraryError ''simulation failed'')]) (args_qubits (default_args\<lparr>args_min := 1, args_max := 6, args_image := True\<rparr>)) = None
   \<and> generator_quantum_number 1 6
        \<lparr>script = [Inr [True, True, True], Inl (LibraryError ''simulation failed'')], runs = []\<rparr>
      = (Raise (LibraryError ''simulation failed''), \<lparr>script = [], runs = [3, 3]\<rparr>)
   \<and> exit_status (fst (main (default_args\<lparr>args_min := 1, args_max := 6, args_image := True\<rparr>) (start_world [Inr [True, True, True], Inl (LibraryError ''simulation failed'')]))) = Some 0
   \<and> last (stdout (snd (main (default_args\<lparr>args_min := 1, args_max := 6, args_image := True\<rparr>) (start_world [Inr [True, True, True], Inl (LibraryError ''simulation failed'')]))))
      = ''An error occurred during random number generation: simulation failed''"
proof -
  have raised: "generator_quantum_number 1 6
        \<lparr>script = [Inr [True, True, True], Inl (LibraryError ''simulation failed'')], runs = []\<rparr>
      = (Raise (LibraryError ''simulation failed''), \<lparr>script = [], runs = [3, 3]\<rparr>)"
    by code_simp
  from single_generation_errors_exit_zero
    [of "default_args\<lparr>args_min := 1, args_max := 6, args_image := True\<rparr>" "(start_world [Inr [True, True, True], Inl (LibraryError ''simulation failed'')])"]
    raised
  show ?thesis by (simp add: default_args_def start_world_def library_drawer_def)
qed

end
